theory Spec2Isabelle
  imports Complex_Main
begin

section \<open>Numbers\<close>

text \<open>
  A JavaScript number is modelled as a real: arithmetic is exact, and NaN and the
  infinities have no counterpart. \<open>Math.sin\<close>, \<open>Math.cos\<close>, \<open>Math.max\<close>,
  \<open>Math.min\<close> and \<open>Math.floor\<close> are the real functions of the same name.

  The remainder operator \<open>x % y\<close> truncates the quotient toward zero, so its result
  has the sign of \<open>x\<close>. (For \<open>y = 0\<close> JavaScript gives NaN; the program only ever
  divides by the literal \<open>1.0\<close> and by the length of a non-empty array.)
\<close>

definition js_trunc :: "real \<Rightarrow> int" where
  "js_trunc x = (if 0 \<le> x then \<lfloor>x\<rfloor> else \<lceil>x\<rceil>)"

definition js_rem :: "real \<Rightarrow> real \<Rightarrow> real" where
  "js_rem x y = x - y * of_int (js_trunc (x / y))"

text \<open>
  \<open>xs[v]\<close> for an array \<open>xs\<close> and a number \<open>v\<close>: the element when \<open>v\<close> is an
  integer in range, \<open>undefined\<close> (here \<open>None\<close>) otherwise.
\<close>

definition js_index :: "'a list \<Rightarrow> real \<Rightarrow> 'a option" where
  "js_index xs v =
     (if v = of_int \<lfloor>v\<rfloor> \<and> 0 \<le> v \<and> nat \<lfloor>v\<rfloor> < length xs
      then Some (xs ! nat \<lfloor>v\<rfloor>) else None)"

text \<open>
  \<open>Math.random()\<close> is modelled by an explicit sequence of draws \<open>rnd\<close> and a counter
  of the draws already taken: the call returns \<open>rnd n\<close> and advances the counter.
\<close>

type_synonym draws = "nat \<Rightarrow> real"

section \<open>Colours and vectors of the rendering library\<close>

record color =
  col_r :: real
  col_g :: real
  col_b :: real

record vec3 =
  vec_x :: real
  vec_y :: real
  vec_z :: real

record quat =
  quat_x :: real
  quat_y :: real
  quat_z :: real
  quat_w :: real

text \<open>\<open>c.lerp(d, alpha)\<close>: each channel moves from \<open>c\<close> toward \<open>d\<close> by \<open>alpha\<close>.\<close>

definition lerp :: "color \<Rightarrow> color \<Rightarrow> real \<Rightarrow> color" where
  "lerp c d alpha =
     \<lparr>col_r = col_r c + (col_r d - col_r c) * alpha,
      col_g = col_g c + (col_g d - col_g c) * alpha,
      col_b = col_b c + (col_b d - col_b c) * alpha\<rparr>"

section \<open>The day-night cycle\<close>

record cycle_params =
  dayDuration :: real
  timeOfDay :: real
  paused :: bool
  daySkyTop :: color
  daySkyBottom :: color
  nightSkyTop :: color
  nightSkyBottom :: color
  dayLightColor :: color
  nightLightColor :: color
  dayLightIntensity :: real
  nightLightIntensity :: real
  dayAmbientColor :: color
  nightAmbientColor :: color
  dayAmbientIntensity :: real
  nightAmbientIntensity :: real

record light =
  light_position :: vec3
  light_intensity :: real
  light_color :: color

record ambient =
  ambient_intensity :: real
  ambient_color :: color

text \<open>
  The sky dome's shader uniforms: \<open>topColor\<close> and \<open>bottomColor\<close> are slots that may be
  absent (\<open>None\<close>); a present slot holds its value.
\<close>

record uniforms =
  topColor :: "color option"
  bottomColor :: "color option"

text \<open>The star field: its visibility and, when it has a material, the material's opacity.\<close>

record stars =
  stars_visible :: bool
  stars_material :: "real option"

text \<open>
  The visual sun reached through \<open>sunLight.parent.userData.sky.userData.sun\<close>. For each
  child the model keeps the point it was last turned to by \<open>lookAt\<close> and, when the child
  has a material, the material's opacity.
\<close>

record sun_child =
  lookTarget :: vec3
  child_material :: "real option"

record visual_sun =
  sun_position :: vec3
  sun_children :: "sun_child list"
  sun_visible :: bool

text \<open>
  Everything the controller returned by \<open>setupDayNightCycle\<close> reads or writes: its own
  \<open>cycleParams\<close> and the scene objects captured by its closures.
\<close>

record cycle_state =
  cycleParams :: cycle_params
  sunLight :: light
  moonLight :: light
  ambientLight :: ambient
  skyDome :: "uniforms option"
  starField :: stars
  visualSun :: "visual_sun option"

definition dayFactor :: "real \<Rightarrow> real" where
  "dayFactor t = max 0 (sin (t * pi * 2))"

definition updateSunPosition :: "real \<Rightarrow> cycle_state \<Rightarrow> cycle_state" where
  "updateSunPosition t w =
     (let sunAngle = t * pi * 2;
          sunX = cos sunAngle;
          sunY = sin sunAngle;
          w1 = w\<lparr>sunLight := (sunLight w)
                   \<lparr>light_position := \<lparr>vec_x = sunX * 5, vec_y = sunY * 10, vec_z = 1\<rparr>\<rparr>,
                 moonLight := (moonLight w)
                   \<lparr>light_position := \<lparr>vec_x = - sunX * 5, vec_y = - sunY * 10, vec_z = - 1\<rparr>\<rparr>\<rparr>
      in case visualSun w1 of
           None \<Rightarrow> w1
         | Some vs \<Rightarrow>
             (let radius = 300;
                  visualSunX = cos sunAngle * radius;
                  visualSunY = max 0 (sin sunAngle * radius);
                  visualSunZ = sin (sunAngle + pi * 0.5) * radius;
                  sunHeight = sin sunAngle;
                  opacity = max 0 (min 1 ((sunHeight + 0.2) * 2));
                  faced = map (\<lambda>c. c\<lparr>lookTarget := \<lparr>vec_x = 0, vec_y = 0, vec_z = 0\<rparr>\<rparr>)
                              (sun_children vs);
                  faded = map (\<lambda>c. case child_material c of
                                        None \<Rightarrow> c
                                      | Some _ \<Rightarrow> c\<lparr>child_material := Some opacity\<rparr>) faced
              in w1\<lparr>visualSun := Some
                      \<lparr>sun_position =
                         \<lparr>vec_x = visualSunX, vec_y = visualSunY, vec_z = visualSunZ\<rparr>,
                       sun_children = faded,
                       sun_visible = (sunHeight > - 0.2)\<rparr>\<rparr>))"

definition updateLighting :: "cycle_state \<Rightarrow> cycle_state" where
  "updateLighting w =
     (let params = cycleParams w;
          df = dayFactor (timeOfDay params);
          nightFactor = 1 - df
      in w\<lparr>sunLight := (sunLight w)
              \<lparr>light_intensity := dayLightIntensity params * df,
               light_color := dayLightColor params\<rparr>,
            moonLight := (moonLight w)
              \<lparr>light_intensity := nightLightIntensity params * nightFactor,
               light_color := nightLightColor params\<rparr>,
            ambientLight :=
              \<lparr>ambient_intensity =
                 dayAmbientIntensity params * df + nightAmbientIntensity params * nightFactor,
               ambient_color = lerp (dayAmbientColor params) (nightAmbientColor params)
                                 nightFactor\<rparr>\<rparr>)"

definition updateSkyColors :: "cycle_state \<Rightarrow> cycle_state" where
  "updateSkyColors w =
     (case skyDome w of
        None \<Rightarrow> w
      | Some u \<Rightarrow>
          (let params = cycleParams w;
               df = dayFactor (timeOfDay params);
               nightFactor = 1 - df;
               newTop = lerp (daySkyTop params) (nightSkyTop params) nightFactor;
               newBottom = lerp (daySkyBottom params) (nightSkyBottom params) nightFactor;
               u1 = (case topColor u of None \<Rightarrow> u | Some _ \<Rightarrow> u\<lparr>topColor := Some newTop\<rparr>);
               u2 = (case bottomColor u1 of None \<Rightarrow> u1
                     | Some _ \<Rightarrow> u1\<lparr>bottomColor := Some newBottom\<rparr>)
           in w\<lparr>skyDome := Some u2\<rparr>))"

definition updateStars :: "real \<Rightarrow> cycle_state \<Rightarrow> cycle_state" where
  "updateStars t w =
     (let df = dayFactor t;
          s1 = (starField w)\<lparr>stars_visible := (df < 0.1)\<rparr>;
          s2 = (case stars_material s1 of
                  None \<Rightarrow> s1
                | Some _ \<Rightarrow> s1\<lparr>stars_material := Some (max 0 (0.1 - df) / 0.1)\<rparr>)
      in w\<lparr>starField := s2\<rparr>)"

text \<open>The controller's methods. Each returns the state it leaves behind.\<close>

definition update :: "real \<Rightarrow> cycle_state \<Rightarrow> cycle_state" where
  "update delta w =
     (if paused (cycleParams w) then w
      else
        (let p = cycleParams w;
             w1 = w\<lparr>cycleParams :=
                     p\<lparr>timeOfDay := js_rem (timeOfDay p + delta / dayDuration p) 1.0\<rparr>\<rparr>;
             w2 = updateSunPosition (timeOfDay (cycleParams w1)) w1;
             w3 = updateLighting w2;
             w4 = updateSkyColors w3
         in updateStars (timeOfDay (cycleParams w4)) w4))"

definition getTimeOfDay :: "cycle_state \<Rightarrow> real" where
  "getTimeOfDay w = timeOfDay (cycleParams w)"

definition setTimeOfDay :: "real \<Rightarrow> cycle_state \<Rightarrow> cycle_state" where
  "setTimeOfDay time w = w\<lparr>cycleParams := (cycleParams w)\<lparr>timeOfDay := js_rem time 1.0\<rparr>\<rparr>"

text \<open>\<open>togglePause\<close> returns the new flag together with the state.\<close>

definition togglePause :: "cycle_state \<Rightarrow> bool \<times> cycle_state" where
  "togglePause w =
     (let w1 = w\<lparr>cycleParams := (cycleParams w)\<lparr>paused := \<not> paused (cycleParams w)\<rparr>\<rparr>
      in (paused (cycleParams w1), w1))"

definition setCycleSpeed :: "real \<Rightarrow> cycle_state \<Rightarrow> cycle_state" where
  "setCycleSpeed durationInSeconds w =
     (if durationInSeconds > 0
      then w\<lparr>cycleParams := (cycleParams w)\<lparr>dayDuration := durationInSeconds\<rparr>\<rparr>
      else w)"

text \<open>
  The state right after \<open>setupDayNightCycle(scene, sunLight)\<close>. The colour constructor
  \<open>new THREE.Color(hex)\<close> of the rendering library is the parameter \<open>mk\<close>; the sun
  light, the sky dome found by the scene traversal and the visual sun are the caller's.
\<close>

definition initialParams :: "(nat \<Rightarrow> color) \<Rightarrow> cycle_params" where
  "initialParams mk =
     \<lparr>dayDuration = 240, timeOfDay = 0.5, paused = False,
      daySkyTop = mk 0x1a8cff, daySkyBottom = mk 0xa6e6ff,
      nightSkyTop = mk 0x000033, nightSkyBottom = mk 0x000066,
      dayLightColor = mk 0xffffcc, nightLightColor = mk 0x3a3a6a,
      dayLightIntensity = 2.5, nightLightIntensity = 0.5,
      dayAmbientColor = mk 0x606060, nightAmbientColor = mk 0x202040,
      dayAmbientIntensity = 1.5, nightAmbientIntensity = 0.5\<rparr>"

definition setupDayNightCycle ::
  "(nat \<Rightarrow> color) \<Rightarrow> light \<Rightarrow> uniforms option \<Rightarrow> visual_sun option \<Rightarrow> cycle_state" where
  "setupDayNightCycle mk sun dome vsun =
     (let p = initialParams mk
      in \<lparr>cycleParams = p,
          sunLight = sun,
          moonLight = \<lparr>light_position = \<lparr>vec_x = - 1, vec_y = 1, vec_z = - 1\<rparr>,
                       light_intensity = 0, light_color = nightLightColor p\<rparr>,
          ambientLight = \<lparr>ambient_intensity = dayAmbientIntensity p,
                          ambient_color = dayAmbientColor p\<rparr>,
          skyDome = dome,
          starField = \<lparr>stars_visible = False, stars_material = Some 0\<rparr>,
          visualSun = vsun\<rparr>)"

text \<open>A fixed grey-scale stand-in for the colour constructor, used at concrete inputs.\<close>

definition greyOf :: "nat \<Rightarrow> color" where
  "greyOf h = \<lparr>col_r = real (h mod 256) / 255, col_g = real (h mod 256) / 255,
               col_b = real (h mod 256) / 255\<rparr>"

definition demoSun :: light where
  "demoSun = \<lparr>light_position = \<lparr>vec_x = 1, vec_y = 1, vec_z = 1\<rparr>, light_intensity = 1,
              light_color = \<lparr>col_r = 1, col_g = 1, col_b = 1\<rparr>\<rparr>"

definition demoState :: cycle_state where
  "demoState = setupDayNightCycle greyOf demoSun
                 (Some \<lparr>topColor = Some (greyOf 0), bottomColor = Some (greyOf 0)\<rparr>) None"

section \<open>Terrain height map and vertex colours\<close>

text \<open>
  A geometry's position attribute is a flat array of numbers, three per vertex
  (\<open>x\<close>, \<open>y\<close>, \<open>z\<close>); the loops below walk it in steps of three, as the source's
  \<open>for (i = 0; i < length; i += 3)\<close> does. The attribute always holds whole vertices; the
  functions leave a trailing fragment of fewer than three numbers as it is.

  The gradient noise \<open>SimplexNoise.noise\<close> of the rendering library is the parameter
  \<open>noise\<close>.
\<close>

definition heightAt :: "(real \<Rightarrow> real \<Rightarrow> real) \<Rightarrow> real \<Rightarrow> real \<Rightarrow> real \<Rightarrow> real" where
  "heightAt noise intensity x z =
     (let noise1 = noise (x * 0.01) (z * 0.01) * 0.5;
          noise2 = noise (x * 0.05) (z * 0.05) * 0.25;
          noise3 = noise (x * 0.2) (z * 0.2) * 0.125
      in (noise1 + noise2 + noise3) * intensity)"

fun applyHeightMap ::
  "(real \<Rightarrow> real \<Rightarrow> real) \<Rightarrow> real \<Rightarrow> draws \<Rightarrow> nat \<Rightarrow> real list \<Rightarrow> real list \<times> nat" where
  "applyHeightMap noise intensity rnd n (x # y # z # rest) =
     (let h = heightAt noise intensity x z;
          h1 = (if rnd n > 0.97 then h * 0.1 else h);
          (rest1, n1) = applyHeightMap noise intensity rnd (Suc n) rest
      in (x # h1 # z # rest1, n1))"
| "applyHeightMap noise intensity rnd n vs = (vs, n)"

text \<open>
  The three height brackets of \<open>applyTerrainColors\<close>, in the order of its
  \<open>if / else if / else\<close>.
\<close>

datatype bracket = LowArea | RegularGrass | HigherArea

definition colorBracket :: "real \<Rightarrow> bracket" where
  "colorBracket height =
     (if height < 0 then LowArea else if height < 2 then RegularGrass else HigherArea)"

definition grassColor :: "(nat \<Rightarrow> color) \<Rightarrow> color" where
  "grassColor mk = mk 0x3b7d4e"

definition darkGrassColor :: "(nat \<Rightarrow> color) \<Rightarrow> color" where
  "darkGrassColor mk = mk 0x2d5d3b"

definition dirtColor :: "(nat \<Rightarrow> color) \<Rightarrow> color" where
  "dirtColor mk = mk 0x8B4513"

text \<open>The colour of one vertex and the draw counter afterwards.\<close>

definition vertexColor :: "(nat \<Rightarrow> color) \<Rightarrow> draws \<Rightarrow> nat \<Rightarrow> real \<Rightarrow> color \<times> nat" where
  "vertexColor mk rnd n height =
     (if height < 0 then
        (lerp (dirtColor mk) (darkGrassColor mk) (0.3 + rnd n * 0.3), Suc n)
      else if height < 2 then
        (\<lparr>col_r = col_r (grassColor mk) + (rnd n - 0.5) * 0.1,
          col_g = col_g (grassColor mk) + (rnd (n + 1) - 0.5) * 0.1,
          col_b = col_b (grassColor mk) + (rnd (n + 2) - 0.5) * 0.1\<rparr>, n + 3)
      else
        (lerp (grassColor mk) (mk 0x7cad6d) (min 1 ((height - 2) / 3)), n))"

text \<open>The flat colour array (\<open>r\<close>, \<open>g\<close>, \<open>b\<close> per vertex) and the draw counter afterwards.\<close>

fun applyTerrainColors ::
  "(nat \<Rightarrow> color) \<Rightarrow> draws \<Rightarrow> nat \<Rightarrow> real list \<Rightarrow> real list \<times> nat" where
  "applyTerrainColors mk rnd n (x # height # z # rest) =
     (let (c, n1) = vertexColor mk rnd n height;
          (colors, n2) = applyTerrainColors mk rnd n1 rest
      in (col_r c # col_g c # col_b c # colors, n2))"
| "applyTerrainColors mk rnd n vs = ([], n)"

section \<open>Tree placement\<close>

datatype tree_kind = PineTree | BroadleafTree | SimpleTree

text \<open>
  \<open>treeTypes\<close> is the array of the three builder functions \<open>createPineTree\<close>,
  \<open>createBroadleafTree\<close> and \<open>createSimpleTree\<close>. What a builder puts into the tree's
  geometry is not modelled; the draws it takes are: \<open>create kind rnd n\<close> is the draw
  counter after building a tree of that kind from counter \<open>n\<close>.
\<close>

definition treeTypes :: "tree_kind list" where
  "treeTypes = [PineTree, BroadleafTree, SimpleTree]"

record tree =
  kind :: tree_kind
  tree_position :: vec3
  rotation_y :: real
  tree_scale :: vec3

text \<open>Calling \<open>undefined\<close> as a function throws a \<open>TypeError\<close>.\<close>

datatype js_error = TypeError

text \<open>The polar position of the candidate drawn at counter \<open>n\<close>, and the noise there.\<close>

definition candidateX :: "draws \<Rightarrow> nat \<Rightarrow> real" where
  "candidateX rnd n = cos (rnd n * pi * 2) * (5 + rnd (n + 1) * 150)"

definition candidateZ :: "draws \<Rightarrow> nat \<Rightarrow> real" where
  "candidateZ rnd n = sin (rnd n * pi * 2) * (5 + rnd (n + 1) * 150)"

definition candidateNoise :: "(real \<Rightarrow> real \<Rightarrow> real) \<Rightarrow> draws \<Rightarrow> nat \<Rightarrow> real" where
  "candidateNoise noise rnd n = noise (candidateX rnd n * 0.02) (candidateZ rnd n * 0.02)"

definition treeTypeIndex :: "real \<Rightarrow> real" where
  "treeTypeIndex noiseValue =
     js_rem (of_int \<lfloor>(noiseValue + 1) * 1.5\<rfloor>) (real (length treeTypes))"

text \<open>
  One pass of the loop body of \<open>createProceduralTrees\<close>: \<open>None\<close> when the candidate
  is skipped by \<open>continue\<close>, the placed tree otherwise, with the draw counter afterwards.
\<close>

definition placeCandidate ::
  "(real \<Rightarrow> real \<Rightarrow> real) \<Rightarrow> (tree_kind \<Rightarrow> draws \<Rightarrow> nat \<Rightarrow> nat) \<Rightarrow> draws \<Rightarrow> nat
     \<Rightarrow> js_error + (tree option \<times> nat)" where
  "placeCandidate noise create rnd n =
     (let x = candidateX rnd n;
          z = candidateZ rnd n;
          noiseValue = candidateNoise noise rnd n
      in if noiseValue < - 0.3 then Inr (None, n + 2)
         else
           (let x1 = x + noiseValue * 10;
                z1 = z + noiseValue * 10
            in case js_index treeTypes (treeTypeIndex noiseValue) of
                 None \<Rightarrow> Inl TypeError
               | Some k \<Rightarrow>
                   (let n1 = create k rnd (n + 2);
                        scale = 0.8 + rnd (n1 + 1) * 0.4
                    in Inr (Some \<lparr>kind = k,
                                  tree_position = \<lparr>vec_x = x1, vec_y = 0, vec_z = z1\<rparr>,
                                  rotation_y = rnd n1 * pi * 2,
                                  tree_scale = \<lparr>vec_x = scale,
                                                vec_y = scale + rnd (n1 + 2) * 0.2,
                                                vec_z = scale\<rparr>\<rparr>,
                            n1 + 3))))"

text \<open>The loop over \<open>count\<close> candidates, collecting the placed trees in order.\<close>

fun placeTrees ::
  "(real \<Rightarrow> real \<Rightarrow> real) \<Rightarrow> (tree_kind \<Rightarrow> draws \<Rightarrow> nat \<Rightarrow> nat) \<Rightarrow> draws \<Rightarrow> nat \<Rightarrow> nat
     \<Rightarrow> js_error + (tree list \<times> nat)" where
  "placeTrees noise create rnd 0 n = Inr ([], n)"
| "placeTrees noise create rnd (Suc count) n =
     (case placeCandidate noise create rnd n of
        Inl e \<Rightarrow> Inl e
      | Inr (t, n1) \<Rightarrow>
          (case placeTrees noise create rnd count n1 of
             Inl e \<Rightarrow> Inl e
           | Inr (ts, n2) \<Rightarrow> Inr ((case t of None \<Rightarrow> ts | Some t1 \<Rightarrow> t1 # ts), n2)))"




section \<open>Fireflies\<close>

record firefly =
  originalX :: real
  originalY :: real
  originalZ :: real
  speed :: real
  phase :: real
  firefly_position :: vec3
  firefly_scale :: vec3

text \<open>
  The body of the \<open>forEach\<close> in \<open>fireflies.update\<close>, for the firefly at \<open>index\<close> of the
  group, at \<open>time\<close> seconds.
\<close>

definition animateFirefly :: "real \<Rightarrow> nat \<Rightarrow> firefly \<Rightarrow> firefly" where
  "animateFirefly time index f =
     (let y1 = originalY f + sin (time * speed f + phase f) * 0.5;
          horizontalPhase = phase f + real index;
          x1 = originalX f + sin (time * 0.2 + horizontalPhase) * 1.0;
          z1 = originalZ f + cos (time * 0.2 + horizontalPhase) * 1.0;
          scale = 0.8 + sin (time * 2 + real index) * 0.2
      in f\<lparr>firefly_position := \<lparr>vec_x = x1, vec_y = y1, vec_z = z1\<rparr>,
           firefly_scale := \<lparr>vec_x = scale, vec_y = scale, vec_z = scale\<rparr>\<rparr>)"

text \<open>
  \<open>fireflies.update(delta)\<close> on the group's children; \<open>now\<close> is the reading of
  \<open>Date.now()\<close> (milliseconds) taken by the call.
\<close>

definition firefliesUpdate :: "real \<Rightarrow> real \<Rightarrow> firefly list \<Rightarrow> firefly list" where
  "firefliesUpdate delta now children =
     (let time = now * 0.001
      in map (\<lambda>(index, f). animateFirefly time index f) (enumerate 0 children))"

section \<open>Player hands\<close>

record hand =
  visible :: bool
  position :: vec3
  quaternion :: quat

text \<open>A controller grip, of which \<open>updateHands\<close> reads the position and the orientation.\<close>

record grip =
  grip_position :: vec3
  grip_quaternion :: quat

record player =
  leftHand :: hand
  rightHand :: hand

text \<open>
  \<open>createPlayer\<close>: both hands hidden. The transforms the hand models are built with
  are the parameters.
\<close>

definition createPlayer :: "vec3 \<Rightarrow> quat \<Rightarrow> vec3 \<Rightarrow> quat \<Rightarrow> player" where
  "createPlayer lp lq rp rq =
     \<lparr>leftHand = \<lparr>visible = False, position = lp, quaternion = lq\<rparr>,
      rightHand = \<lparr>visible = False, position = rp, quaternion = rq\<rparr>\<rparr>"

definition updateHands :: "grip list \<Rightarrow> player \<Rightarrow> player" where
  "updateHands controllers p =
     (let p1 = (if length controllers > 0
                then p\<lparr>leftHand := \<lparr>visible = True,
                                    position = grip_position (controllers ! 0),
                                    quaternion = grip_quaternion (controllers ! 0)\<rparr>\<rparr>
                else p)
      in if length controllers > 1
         then p1\<lparr>rightHand := \<lparr>visible = True,
                                position = grip_position (controllers ! 1),
                                quaternion = grip_quaternion (controllers ! 1)\<rparr>\<rparr>
         else p1)"

text \<open>The frames of a session: one call of \<open>updateHands\<close> per controller list, in order.\<close>

definition runFrames :: "grip list list \<Rightarrow> player \<Rightarrow> player" where
  "runFrames frames p = fold updateHands frames p"

section \<open>Ambient audio\<close>

record audio =
  isPlaying :: bool
  volume :: real

text \<open>
  The module state of the audio component: the \<open>birds\<close> and \<open>night\<close> entries of
  \<open>audioSources\<close> (absent before \<open>setupAudio\<close>) and \<open>dayNightState\<close>.
\<close>

record audio_state =
  birds :: "audio option"
  night :: "audio option"
  dayNightState :: string

definition updateAudioForTimeOfDay :: "real \<Rightarrow> audio_state \<Rightarrow> audio_state" where
  "updateAudioForTimeOfDay t st =
     (case (birds st, night st) of
        (Some b, Some nt) \<Rightarrow>
          (let df = max 0 (sin (t * pi * 2));
               nightFactor = 1 - df;
               newState = (if df > 0.3 then ''day'' else ''night'');
               b1 = (if isPlaying b then b\<lparr>volume := 0.5 * df\<rparr> else b);
               nt1 = (if isPlaying nt then nt\<lparr>volume := 0.5 * nightFactor\<rparr> else nt);
               st1 = st\<lparr>birds := Some b1, night := Some nt1\<rparr>
           in if newState \<noteq> dayNightState st1 then st1\<lparr>dayNightState := newState\<rparr> else st1)
      | _ \<Rightarrow> st)"

section \<open>Concrete inputs\<close>

text \<open>Small concrete states and inputs at which the results below are evaluated.\<close>

definition constDraws :: "real \<Rightarrow> draws" where
  "constDraws c = (\<lambda>i. c)"

definition constNoise :: "real \<Rightarrow> real \<Rightarrow> real \<Rightarrow> real" where
  "constNoise c = (\<lambda>x z. c)"

definition flatSecond :: draws where
  "flatSecond i = (if i = 1 then 0.98 else 0.5)"



definition demoGrip :: "real \<Rightarrow> grip" where
  "demoGrip a = \<lparr>grip_position = \<lparr>vec_x = a, vec_y = 1, vec_z = 0\<rparr>,
                 grip_quaternion = \<lparr>quat_x = 0, quat_y = 0, quat_z = 0, quat_w = 1\<rparr>\<rparr>"

definition demoPlayer :: player where
  "demoPlayer = createPlayer \<lparr>vec_x = 0, vec_y = 0, vec_z = 0\<rparr>
                  \<lparr>quat_x = 0, quat_y = 0, quat_z = 0, quat_w = 1\<rparr>
                  \<lparr>vec_x = 0, vec_y = 0, vec_z = 0\<rparr>
                  \<lparr>quat_x = 0, quat_y = 0, quat_z = 0, quat_w = 1\<rparr>"

definition demoAudio :: audio_state where
  "demoAudio = \<lparr>birds = Some \<lparr>isPlaying = True, volume = 0.5\<rparr>,
                night = Some \<lparr>isPlaying = True, volume = 0\<rparr>,
                dayNightState = ''day''\<rparr>"

definition demoFirefly :: firefly where
  "demoFirefly = \<lparr>originalX = 40, originalY = 1, originalZ = 0, speed = 0.5, phase = 0,
                  firefly_position = \<lparr>vec_x = 40, vec_y = 1, vec_z = 0\<rparr>,
                  firefly_scale = \<lparr>vec_x = 1, vec_y = 1, vec_z = 1\<rparr>\<rparr>"

section \<open>Properties of the day-night cycle\<close>

lemma js_rem_one_nonneg: "0 \<le> x \<Longrightarrow> js_rem x 1 = frac x"
  by (simp add: js_rem_def js_trunc_def frac_def)

lemma js_rem_one_range: "0 \<le> x \<Longrightarrow> 0 \<le> js_rem x 1 \<and> js_rem x 1 < 1"
  by (simp add: js_rem_one_nonneg frac_lt_1)

lemma cycleParams_updateSunPosition: "cycleParams (updateSunPosition t w) = cycleParams w"
  by (simp add: updateSunPosition_def Let_def split: option.split)

lemma cycleParams_updateLighting: "cycleParams (updateLighting w) = cycleParams w"
  by (simp add: updateLighting_def Let_def)

lemma cycleParams_updateSkyColors: "cycleParams (updateSkyColors w) = cycleParams w"
  by (simp add: updateSkyColors_def Let_def split: option.split)

lemma cycleParams_updateStars: "cycleParams (updateStars t w) = cycleParams w"
  by (simp add: updateStars_def Let_def split: option.split)

lemma cycleParams_update:
  "\<not> paused (cycleParams w) \<Longrightarrow>
   cycleParams (update delta w) =
     (cycleParams w)\<lparr>timeOfDay :=
        js_rem (timeOfDay (cycleParams w) + delta / dayDuration (cycleParams w)) 1\<rparr>"
  by (simp add: update_def Let_def cycleParams_updateSunPosition cycleParams_updateLighting
      cycleParams_updateSkyColors cycleParams_updateStars)

lemma demoState_params:
  "\<not> paused (cycleParams demoState)" "dayDuration (cycleParams demoState) = 240"
  "timeOfDay (cycleParams demoState) = 1/2"
  by (simp_all add: demoState_def setupDayNightCycle_def initialParams_def)

text \<open>
  C1. With the cycle running and a positive cycle duration \<open>D\<close>, \<open>setTimeOfDay(t0)\<close>
  followed by \<open>update(dt)\<close> leaves the time of day at \<open>(t0 + dt / D) mod 1\<close>, for all
  \<open>t0 \<ge> 0\<close> and \<open>dt \<ge> 0\<close>. On the reals, \<open>x mod 1\<close> is the fractional part \<open>frac x\<close>.
\<close>

theorem update_after_setTimeOfDay:
  assumes "0 \<le> t0" and "0 \<le> dt" and "\<not> paused (cycleParams w)"
    and "dayDuration (cycleParams w) = D" and "0 < D"
  shows "getTimeOfDay (update dt (setTimeOfDay t0 w)) = frac (t0 + dt / D)"
proof -
  let ?w1 = "setTimeOfDay t0 w"
  have t1: "timeOfDay (cycleParams ?w1) = frac t0"
    using assms(1) by (simp add: setTimeOfDay_def js_rem_one_nonneg)
  have d1: "dayDuration (cycleParams ?w1) = D" and p1: "\<not> paused (cycleParams ?w1)"
    using assms(3,4) by (simp_all add: setTimeOfDay_def)
  have q: "0 \<le> dt / D" using assms(2,5) by simp
  have "getTimeOfDay (update dt ?w1) = js_rem (frac t0 + dt / D) 1"
    using p1 by (simp add: getTimeOfDay_def cycleParams_update t1 d1)
  also have "\<dots> = frac (frac t0 + dt / D)"
    using q by (intro js_rem_one_nonneg) (simp add: add_nonneg_nonneg)
  also have "\<dots> = frac (t0 + dt / D)"
  proof -
    have "frac t0 + dt / D = (t0 + dt / D) - of_int \<lfloor>t0\<rfloor>"
      by (simp add: frac_def)
    then show ?thesis
      by (simp only: frac_def floor_diff_of_int)
  qed
  finally show ?thesis .
qed

theorem update_after_setTimeOfDay_witness:
  "(0::real) \<le> 3/4 \<and> (0::real) \<le> 120 \<and> \<not> paused (cycleParams demoState)
   \<and> dayDuration (cycleParams demoState) = 240 \<and> (0::real) < 240
   \<and> getTimeOfDay (update 120 (setTimeOfDay (3/4) demoState)) = 1/4"
proof -
  have "getTimeOfDay (update 120 (setTimeOfDay (3/4) demoState)) = frac (3/4 + 120/240)"
    using update_after_setTimeOfDay [of "3/4" 120 demoState 240] demoState_params by simp
  moreover have "frac (3/4 + 120/240 :: real) = 1/4"
    by (simp add: frac_def)
  ultimately show ?thesis using demoState_params by simp
qed

text \<open>
  C3. The time of day is meant to stay in \<open>[0, 1)\<close>. \<open>setTimeOfDay\<close> wraps its argument
  with \<open>%\<close>, whose result takes the sign of the argument: \<open>setTimeOfDay(-0.25)\<close> stores
  \<open>-0.25\<close>, which is outside \<open>[0, 1)\<close>.
\<close>

theorem setTimeOfDay_negative_leaves_range:
  "getTimeOfDay (setTimeOfDay (- (1/4)) w) = - (1/4)
   \<and> getTimeOfDay (setTimeOfDay (- (1/4)) w) \<notin> {0..<1}"
proof -
  have "\<lceil>- (1/4) :: real\<rceil> = 0"
    by (rule ceiling_unique) simp_all
  then show ?thesis
    by (simp add: getTimeOfDay_def setTimeOfDay_def js_rem_def js_trunc_def)
qed

text \<open>
  The rest of the invariant holds: a non-negative argument is wrapped into \<open>[0, 1)\<close>,
  \<open>update\<close> keeps a time of day in range once it is in range, and the other two operations
  do not touch it.
\<close>

lemma setTimeOfDay_nonneg_in_range:
  "0 \<le> t \<Longrightarrow> getTimeOfDay (setTimeOfDay t w) \<in> {0..<1}"
  using js_rem_one_range [of t] by (simp add: getTimeOfDay_def setTimeOfDay_def)

lemma update_keeps_range:
  assumes "getTimeOfDay w \<in> {0..<1}" and "0 \<le> dt" and "0 < dayDuration (cycleParams w)"
  shows "getTimeOfDay (update dt w) \<in> {0..<1}"
proof (cases "paused (cycleParams w)")
  case True
  then show ?thesis using assms(1) by (simp add: update_def)
next
  case False
  have "0 \<le> timeOfDay (cycleParams w) + dt / dayDuration (cycleParams w)"
    using assms by (simp add: getTimeOfDay_def)
  from js_rem_one_range [OF this] show ?thesis
    using False by (simp add: getTimeOfDay_def cycleParams_update)
qed

lemma togglePause_timeOfDay: "getTimeOfDay (snd (togglePause w)) = getTimeOfDay w"
  by (simp add: togglePause_def getTimeOfDay_def Let_def)

lemma setCycleSpeed_timeOfDay: "getTimeOfDay (setCycleSpeed d w) = getTimeOfDay w"
  by (simp add: setCycleSpeed_def getTimeOfDay_def)

lemma setCycleSpeed_keeps_positive:
  "0 < dayDuration (cycleParams w) \<Longrightarrow> 0 < dayDuration (cycleParams (setCycleSpeed d w))"
  by (simp add: setCycleSpeed_def)

text \<open>
  C6. \<open>setCycleSpeed(d)\<close> with \<open>d \<le> 0\<close> returns the state it was given, whole; with
  \<open>d > 0\<close> it stores \<open>d\<close> as the cycle duration and changes nothing else. The method
  has no other outcome: it neither throws nor writes anywhere else.
\<close>

theorem setCycleSpeed_spec:
  "(d \<le> 0 \<longrightarrow> setCycleSpeed d w = w) \<and>
   (0 < d \<longrightarrow> setCycleSpeed d w = w\<lparr>cycleParams := (cycleParams w)\<lparr>dayDuration := d\<rparr>\<rparr>
            \<and> dayDuration (cycleParams (setCycleSpeed d w)) = d)"
  by (simp add: setCycleSpeed_def)

theorem setCycleSpeed_spec_witness:
  "setCycleSpeed 0 demoState = demoState \<and> setCycleSpeed (- 5) demoState = demoState
   \<and> dayDuration (cycleParams (setCycleSpeed 120 demoState)) = 120"
  using setCycleSpeed_spec [of 0 demoState] setCycleSpeed_spec [of "- 5" demoState]
    setCycleSpeed_spec [of 120 demoState]
  by simp

text \<open>
  C7. While the cycle is paused, \<open>update(dt)\<close> returns at once: the whole state is as
  before, the time of day as well as the sun and moon lights, the ambient light, the sky
  dome's uniforms, the star field and the visual sun.
\<close>

theorem update_paused: "paused (cycleParams w) \<Longrightarrow> update dt w = w"
  by (simp add: update_def)

theorem update_paused_witness:
  "paused (cycleParams (snd (togglePause demoState)))
   \<and> update 1 (snd (togglePause demoState)) = snd (togglePause demoState)"
proof -
  have p: "paused (cycleParams (snd (togglePause demoState)))"
    using demoState_params(1) by (simp add: togglePause_def Let_def)
  from update_paused [OF p, of 1] p show ?thesis by simp
qed

text \<open>While it runs, \<open>update\<close> does write: for one, the sun's intensity follows the new time.\<close>

lemma update_running_sun_intensity:
  assumes "\<not> paused (cycleParams w)"
  shows "light_intensity (sunLight (update dt w)) =
           dayLightIntensity (cycleParams w) * dayFactor (getTimeOfDay (update dt w))"
  using assms
  by (simp add: getTimeOfDay_def cycleParams_update)
     (simp add: update_def Let_def updateStars_def updateSkyColors_def updateLighting_def
        cycleParams_updateSunPosition split: option.split)

section \<open>Properties of the terrain\<close>

lemma applyHeightMap_vertex:
  "3 * k + 2 < length vs \<Longrightarrow>
   fst (applyHeightMap noise intensity rnd n vs) ! (3 * k) = vs ! (3 * k)
   \<and> fst (applyHeightMap noise intensity rnd n vs) ! (3 * k + 1) =
       (if rnd (n + k) > 0.97
        then heightAt noise intensity (vs ! (3 * k)) (vs ! (3 * k + 2)) * 0.1
        else heightAt noise intensity (vs ! (3 * k)) (vs ! (3 * k + 2)))
   \<and> fst (applyHeightMap noise intensity rnd n vs) ! (3 * k + 2) = vs ! (3 * k + 2)"
proof (induction noise intensity rnd n vs arbitrary: k rule: applyHeightMap.induct)
  case (1 noise intensity rnd n x y z rest)
  show ?case
  proof (cases k)
    case 0
    then show ?thesis by (simp add: Let_def case_prod_unfold)
  next
    case (Suc j)
    have len: "3 * j + 2 < length rest" using "1.prems" Suc by simp
    have i0: "3 * k = Suc (Suc (Suc (3 * j)))" and i1: "3 * k + 1 = Suc (Suc (Suc (3 * j + 1)))"
      and i2: "3 * k + 2 = Suc (Suc (Suc (3 * j + 2)))"
      using Suc by simp_all
    from "1.IH" [OF refl refl len] show ?thesis
      unfolding i0 i1 i2 using Suc
      by (simp add: Let_def case_prod_unfold)
  qed
qed simp_all

lemma applyHeightMap_length:
  "length (fst (applyHeightMap noise intensity rnd n vs)) = length vs"
  by (induction noise intensity rnd n vs rule: applyHeightMap.induct)
     (simp_all add: Let_def case_prod_unfold)

lemma applyHeightMap_draws:
  "snd (applyHeightMap noise intensity rnd n vs) = n + length vs div 3"
  by (induction noise intensity rnd n vs rule: applyHeightMap.induct)
     (simp_all add: Let_def case_prod_unfold)

text \<open>
  C5. For the vertex number \<open>k\<close> of the position array, at \<open>(x, z)\<close>, the elevation
  written by \<open>applyHeightMap\<close> is
  \<open>(noise(0.01x, 0.01z) * 0.5 + noise(0.05x, 0.05z) * 0.25 + noise(0.2x, 0.2z) * 0.125)
  * intensity\<close>, or a tenth of it when the vertex's draw of \<open>Math.random()\<close> is above
  \<open>0.97\<close>, which a uniform draw from \<open>[0, 1)\<close> is three times in a hundred. The vertex
  takes the draw number \<open>k\<close> of the call; \<open>x\<close> and \<open>z\<close> stay as they are.
\<close>

theorem applyHeightMap_elevation:
  assumes "3 * k + 2 < length vs"
  shows "fst (applyHeightMap noise intensity rnd n vs) ! (3 * k + 1) =
      (let x = vs ! (3 * k); z = vs ! (3 * k + 2);
           h = (noise (0.01 * x) (0.01 * z) * 0.5 + noise (0.05 * x) (0.05 * z) * 0.25
                  + noise (0.2 * x) (0.2 * z) * 0.125) * intensity
       in if rnd (n + k) > 0.97 then 0.1 * h else h)
    \<and> fst (applyHeightMap noise intensity rnd n vs) ! (3 * k) = vs ! (3 * k)
    \<and> fst (applyHeightMap noise intensity rnd n vs) ! (3 * k + 2) = vs ! (3 * k + 2)
    \<and> length (fst (applyHeightMap noise intensity rnd n vs)) = length vs"
  using applyHeightMap_vertex [OF assms, of noise intensity rnd n]
  by (simp add: applyHeightMap_length heightAt_def Let_def mult.commute)

theorem applyHeightMap_elevation_witness:
  "3 * 1 + 2 < length [0, 0, 0, 100, 0, 0 :: real]
   \<and> fst (applyHeightMap (constNoise 1) 5 flatSecond 0 [0, 0, 0, 100, 0, 0])
     = [0, 4.375, 0, 100, 0.4375, 0]"
  using applyHeightMap_elevation [of 0 "[0, 0, 0, 100, 0, 0]" "constNoise 1" 5 flatSecond 0]
    applyHeightMap_elevation [of 1 "[0, 0, 0, 100, 0, 0]" "constNoise 1" 5 flatSecond 0]
  by (simp add: heightAt_def Let_def constNoise_def flatSecond_def)

lemma vertexColor_by_bracket:
  "vertexColor mk rnd n height =
     (case colorBracket height of
        LowArea \<Rightarrow> (lerp (dirtColor mk) (darkGrassColor mk) (0.3 + rnd n * 0.3), Suc n)
      | RegularGrass \<Rightarrow>
          (\<lparr>col_r = col_r (grassColor mk) + (rnd n - 0.5) * 0.1,
            col_g = col_g (grassColor mk) + (rnd (n + 1) - 0.5) * 0.1,
            col_b = col_b (grassColor mk) + (rnd (n + 2) - 0.5) * 0.1\<rparr>, n + 3)
      | HigherArea \<Rightarrow> (lerp (grassColor mk) (mk 0x7cad6d) (min 1 ((height - 2) / 3)), n))"
  by (simp add: vertexColor_def colorBracket_def)

text \<open>
  C2, as the code has it. Both guards of \<open>applyTerrainColors\<close> are strict: the low bracket
  is \<open>height < 0\<close> and the grass bracket is \<open>height < 2\<close>. A vertex at elevation exactly
  \<open>0\<close> is coloured by the regular-grass branch (base grass with three jitter draws), and
  a vertex at elevation exactly \<open>2\<close> by the branch for higher areas (a blend from grass
  toward the lighter tone by \<open>min(1, (2 - 2) / 3) = 0\<close>, with no draw).
\<close>

theorem terrain_bracket_boundaries:
  "colorBracket 0 = RegularGrass \<and> colorBracket 2 = HigherArea
   \<and> vertexColor mk rnd n 0 =
       (\<lparr>col_r = col_r (grassColor mk) + (rnd n - 0.5) * 0.1,
         col_g = col_g (grassColor mk) + (rnd (n + 1) - 0.5) * 0.1,
         col_b = col_b (grassColor mk) + (rnd (n + 2) - 0.5) * 0.1\<rparr>, n + 3)
   \<and> vertexColor mk rnd n 2 = (lerp (grassColor mk) (mk 0x7cad6d) 0, n)
   \<and> applyTerrainColors mk rnd n [x, 0, z] =
       ([col_r (grassColor mk) + (rnd n - 0.5) * 0.1,
         col_g (grassColor mk) + (rnd (n + 1) - 0.5) * 0.1,
         col_b (grassColor mk) + (rnd (n + 2) - 0.5) * 0.1], n + 3)
   \<and> applyTerrainColors mk rnd n [x, 2, z] =
       ([col_r (grassColor mk), col_g (grassColor mk), col_b (grassColor mk)], n)"
  by (simp add: colorBracket_def vertexColor_def lerp_def)

text \<open>
  The claim as it was written puts elevation \<open>0\<close> in the low bracket and elevation \<open>2\<close>
  in the grass bracket. For the single vertex \<open>(0, 0, 0)\<close>, with every draw at \<open>1/2\<close>,
  the code takes three draws and pushes the unjittered grass colour, not the dirt blend.
\<close>

theorem terrain_bracket_counterexample:
  "\<not> (colorBracket 0 = LowArea \<and> colorBracket 2 = RegularGrass)
   \<and> applyTerrainColors greyOf (constDraws (1/2)) 0 [0, 0, 0] = ([78/255, 78/255, 78/255], 3)
   \<and> vertexColor greyOf (constDraws (1/2)) 0 0
       \<noteq> (lerp (dirtColor greyOf) (darkGrassColor greyOf) (0.3 + 1/2 * 0.3), Suc 0)"
  by (simp add: colorBracket_def vertexColor_def lerp_def greyOf_def grassColor_def
      dirtColor_def darkGrassColor_def constDraws_def)

section \<open>Properties of the tree placement\<close>

lemma js_rem_of_int_nonneg:
  assumes "0 \<le> m" and "0 < k"
  shows "js_rem (of_int m) (of_int k) = of_int (m mod k)"
proof -
  have "(0::real) \<le> of_int m / of_int k" using assms by simp
  then have "js_trunc (of_int m / of_int k) = m div k"
    by (simp add: js_trunc_def floor_divide_of_int_eq)
  then have "js_rem (of_int m) (of_int k) = of_int (m - k * (m div k))"
    by (simp add: js_rem_def)
  then show ?thesis by (simp add: minus_mult_div_eq_mod)
qed

lemma js_index_of_int:
  "0 \<le> j \<Longrightarrow> nat j < length xs \<Longrightarrow> js_index xs (of_int j) = Some (xs ! nat j)"
  by (simp add: js_index_def)

lemma treeTypeIndex_accepted:
  assumes "\<not> noiseValue < - 0.3"
  shows "treeTypeIndex noiseValue =
           of_int (\<lfloor>(noiseValue + 1) * 1.5\<rfloor> mod int (length treeTypes))"
proof -
  have "1 \<le> (noiseValue + 1) * 1.5" using assms by simp
  then have "1 \<le> \<lfloor>(noiseValue + 1) * 1.5\<rfloor>" by linarith
  then have "0 \<le> \<lfloor>(noiseValue + 1) * 1.5\<rfloor>" by simp
  from js_rem_of_int_nonneg [OF this, of 3] show ?thesis
    by (simp add: treeTypeIndex_def treeTypes_def)
qed

lemma placeCandidate_accepted:
  assumes "\<not> candidateNoise noise rnd n < - 0.3"
  shows "\<exists>t k. placeCandidate noise create rnd n = Inr (Some t, k)
      \<and> vec_x (tree_position t) = candidateX rnd n + candidateNoise noise rnd n * 10
      \<and> vec_z (tree_position t) = candidateZ rnd n + candidateNoise noise rnd n * 10
      \<and> nat (\<lfloor>(candidateNoise noise rnd n + 1) * 1.5\<rfloor> mod int (length treeTypes)) < length treeTypes
      \<and> kind t = treeTypes ! nat (\<lfloor>(candidateNoise noise rnd n + 1) * 1.5\<rfloor> mod int (length treeTypes))"
proof -
  let ?j = "\<lfloor>(candidateNoise noise rnd n + 1) * 1.5\<rfloor> mod int (length treeTypes)"
  have j: "0 \<le> ?j" "nat ?j < length treeTypes"
    by (simp_all add: treeTypes_def)
  have "js_index treeTypes (treeTypeIndex (candidateNoise noise rnd n))
          = Some (treeTypes ! nat ?j)"
    using js_index_of_int [OF j] treeTypeIndex_accepted [OF assms] by simp
  then show ?thesis
    using assms j by (simp add: placeCandidate_def Let_def)
qed

lemma placeCandidate_skipped:
  "candidateNoise noise rnd n < - 0.3 \<Longrightarrow> placeCandidate noise create rnd n = Inr (None, n + 2)"
  by (simp add: placeCandidate_def Let_def)

lemma placeCandidate_no_error: "\<exists>t k. placeCandidate noise create rnd n = Inr (t, k)"
proof (cases "candidateNoise noise rnd n < - 0.3")
  case True
  then show ?thesis by (simp add: placeCandidate_skipped)
next
  case False
  from placeCandidate_accepted [OF this] show ?thesis by blast
qed

lemma placeTrees_no_error: "\<exists>ts k. placeTrees noise create rnd count n = Inr (ts, k)"
proof (induction count arbitrary: n)
  case 0
  then show ?case by simp
next
  case (Suc count)
  obtain t n1 where c: "placeCandidate noise create rnd n = Inr (t, n1)"
    using placeCandidate_no_error by blast
  obtain ts n2 where r: "placeTrees noise create rnd count n1 = Inr (ts, n2)"
    using Suc.IH by blast
  show ?case by (simp add: c r)
qed


















section \<open>Properties of the fireflies\<close>

lemma length_firefliesUpdate: "length (firefliesUpdate delta now fs) = length fs"
  by (simp add: firefliesUpdate_def)

lemma nth_firefliesUpdate:
  "i < length fs \<Longrightarrow> firefliesUpdate delta now fs ! i = animateFirefly (now * 0.001) i (fs ! i)"
  by (simp add: firefliesUpdate_def nth_enumerate_eq)

lemma animateFirefly_again:
  "animateFirefly t i (animateFirefly t' i' f) = animateFirefly t i f"
  by (simp add: animateFirefly_def Let_def)

lemma firefliesUpdate_again:
  "firefliesUpdate d t (firefliesUpdate d' t' fs) = firefliesUpdate d t fs"
  by (rule nth_equalityI)
     (simp_all add: length_firefliesUpdate nth_firefliesUpdate animateFirefly_again)

lemma firefliesUpdate_delta: "firefliesUpdate d t fs = firefliesUpdate d' t fs"
  by (simp add: firefliesUpdate_def)

lemma firefliesUpdate_after_fold:
  "firefliesUpdate d t (fold (\<lambda>(d', t'). firefliesUpdate d' t') earlier fs)
     = firefliesUpdate d t fs"
proof (induction earlier arbitrary: fs)
  case Nil
  then show ?case by simp
next
  case (Cons c earlier)
  obtain d' t' where c: "c = (d', t')" by (cases c)
  show ?case
    using Cons.IH [of "firefliesUpdate d' t' fs"] 
    by (simp add: c firefliesUpdate_again)
qed

text \<open>
  C8, as the code has it. After \<open>fireflies.update\<close>, the position and the scale of the
  firefly at index \<open>i\<close> of the group are given by the clock reading, the index \<open>i\<close>, and
  the firefly's stored phase, speed and original position. The delta argument and the
  calls made before have no part in it: after any earlier calls, with any deltas, an
  update at the same clock reading leaves the same group.
\<close>

theorem fireflies_replay:
  assumes "i < length fs"
  shows "firefly_position (firefliesUpdate delta now fs ! i) =
           \<lparr>vec_x = originalX (fs ! i) + sin (now * 0.001 * 0.2 + (phase (fs ! i) + real i)),
            vec_y = originalY (fs ! i)
                    + sin (now * 0.001 * speed (fs ! i) + phase (fs ! i)) * 0.5,
            vec_z = originalZ (fs ! i) + cos (now * 0.001 * 0.2 + (phase (fs ! i) + real i))\<rparr>
    \<and> firefly_scale (firefliesUpdate delta now fs ! i) =
           \<lparr>vec_x = 0.8 + sin (now * 0.001 * 2 + real i) * 0.2,
            vec_y = 0.8 + sin (now * 0.001 * 2 + real i) * 0.2,
            vec_z = 0.8 + sin (now * 0.001 * 2 + real i) * 0.2\<rparr>
    \<and> firefliesUpdate delta now (fold (\<lambda>(d, t). firefliesUpdate d t) earlier fs)
         = firefliesUpdate delta' now fs"
  using assms
  by (simp add: firefliesUpdate_after_fold nth_firefliesUpdate firefliesUpdate_delta [of delta now fs delta'])
     (simp add: animateFirefly_def Let_def)

lemma sin_one_pos: "0 < sin (1::real)"
  by (rule sin_gt_zero_02) simp_all

text \<open>
  The index is needed: two fireflies with the same phase, speed and original position,
  updated by the same call at the same clock reading, end with different scales, because
  the pulse is \<open>0.8 + sin(time * 2 + index) * 0.2\<close>.
\<close>

theorem fireflies_index_counterexample:
  "firefly_scale (firefliesUpdate 0 0 [demoFirefly, demoFirefly] ! 0)
     \<noteq> firefly_scale (firefliesUpdate 0 0 [demoFirefly, demoFirefly] ! 1)"
  using sin_one_pos
  by (simp add: firefliesUpdate_def animateFirefly_def demoFirefly_def Let_def)

theorem fireflies_replay_witness:
  "0 < length [demoFirefly]
   \<and> firefly_position (firefliesUpdate 5 0 [demoFirefly] ! 0) = \<lparr>vec_x = 40, vec_y = 1, vec_z = 1\<rparr>
   \<and> firefly_scale (firefliesUpdate 5 0 [demoFirefly] ! 0) = \<lparr>vec_x = 0.8, vec_y = 0.8, vec_z = 0.8\<rparr>
   \<and> firefliesUpdate 5 0 (fold (\<lambda>(d, t). firefliesUpdate d t) [(1, 1000), (2, 3000)] [demoFirefly])
        = firefliesUpdate 7 0 [demoFirefly]"
  using fireflies_replay [of 0 "[demoFirefly]" 5 0 "[(1, 1000), (2, 3000)]" 7]
  by (simp add: demoFirefly_def)

section \<open>Properties of the player hands\<close>

lemma updateHands_left_present:
  "length controllers > 0 \<Longrightarrow>
   leftHand (updateHands controllers p) =
     \<lparr>visible = True, position = grip_position (controllers ! 0),
      quaternion = grip_quaternion (controllers ! 0)\<rparr>"
  by (simp add: updateHands_def Let_def)

lemma updateHands_left_absent:
  "\<not> length controllers > 0 \<Longrightarrow> leftHand (updateHands controllers p) = leftHand p"
  by (simp add: updateHands_def Let_def)

lemma updateHands_right_present:
  "length controllers > 1 \<Longrightarrow>
   rightHand (updateHands controllers p) =
     \<lparr>visible = True, position = grip_position (controllers ! 1),
      quaternion = grip_quaternion (controllers ! 1)\<rparr>"
  by (simp add: updateHands_def Let_def)

lemma updateHands_right_absent:
  "\<not> length controllers > 1 \<Longrightarrow> rightHand (updateHands controllers p) = rightHand p"
  by (simp add: updateHands_def Let_def)

lemma runFrames_left_visible:
  "visible (leftHand (runFrames frames p)) \<longleftrightarrow>
     visible (leftHand p) \<or> (\<exists>cs \<in> set frames. length cs > 0)"
  unfolding runFrames_def
proof (induction frames arbitrary: p)
  case Nil
  then show ?case by simp
next
  case (Cons cs frames)
  show ?case
  proof (cases "length cs > 0")
    case True
    then show ?thesis using Cons.IH [of "updateHands cs p"]
      by (simp add: updateHands_left_present)
  next
    case False
    then show ?thesis using Cons.IH [of "updateHands cs p"]
      by (simp add: updateHands_left_absent)
  qed
qed

lemma runFrames_right_visible:
  "visible (rightHand (runFrames frames p)) \<longleftrightarrow>
     visible (rightHand p) \<or> (\<exists>cs \<in> set frames. length cs > 1)"
  unfolding runFrames_def
proof (induction frames arbitrary: p)
  case Nil
  then show ?case by simp
next
  case (Cons cs frames)
  show ?case
  proof (cases "length cs > 1")
    case True
    then show ?thesis using Cons.IH [of "updateHands cs p"]
      by (simp add: updateHands_right_present)
  next
    case False
    then show ?thesis using Cons.IH [of "updateHands cs p"]
      by (simp add: updateHands_right_absent)
  qed
qed

lemma runFrames_append: "runFrames (fs @ gs) p = runFrames gs (runFrames fs p)"
  by (simp add: runFrames_def)

text \<open>
  C9. Both hands start hidden. \<open>updateHands\<close> shows the left hand and copies the first
  pose into it when the list has one, and leaves the left hand as it is when the list is
  empty; the same for the right hand and the second pose. Over the frames of a session
  from the start, a hand is visible exactly when some frame so far had a pose at its
  index, and a hand that is visible stays visible in every later frame.
\<close>

theorem updateHands_spec:
  "\<not> visible (leftHand (createPlayer lp lq rp rq))
   \<and> \<not> visible (rightHand (createPlayer lp lq rp rq))
   \<and> (length cs > 0 \<longrightarrow>
        leftHand (updateHands cs p) =
          \<lparr>visible = True, position = grip_position (cs ! 0),
           quaternion = grip_quaternion (cs ! 0)\<rparr>)
   \<and> (length cs < 1 \<longrightarrow> leftHand (updateHands cs p) = leftHand p)
   \<and> (length cs > 1 \<longrightarrow>
        rightHand (updateHands cs p) =
          \<lparr>visible = True, position = grip_position (cs ! 1),
           quaternion = grip_quaternion (cs ! 1)\<rparr>)
   \<and> (length cs < 2 \<longrightarrow> rightHand (updateHands cs p) = rightHand p)
   \<and> (visible (leftHand (runFrames frames (createPlayer lp lq rp rq)))
          \<longleftrightarrow> (\<exists>f \<in> set frames. length f > 0))
   \<and> (visible (rightHand (runFrames frames (createPlayer lp lq rp rq)))
          \<longleftrightarrow> (\<exists>f \<in> set frames. length f > 1))
   \<and> (visible (leftHand (runFrames frames p))
          \<longrightarrow> visible (leftHand (runFrames (frames @ later) p)))
   \<and> (visible (rightHand (runFrames frames p))
          \<longrightarrow> visible (rightHand (runFrames (frames @ later) p)))"
proof -
  have init: "\<not> visible (leftHand (createPlayer lp lq rp rq))"
    "\<not> visible (rightHand (createPlayer lp lq rp rq))"
    by (simp_all add: createPlayer_def)
  have l: "visible (leftHand (runFrames frames (createPlayer lp lq rp rq)))
          \<longleftrightarrow> (\<exists>f \<in> set frames. length f > 0)"
    using init by (simp add: runFrames_left_visible)
  have r: "visible (rightHand (runFrames frames (createPlayer lp lq rp rq)))
          \<longleftrightarrow> (\<exists>f \<in> set frames. length f > 1)"
    using init by (simp add: runFrames_right_visible)
  have ml: "visible (leftHand (runFrames frames p))
          \<longrightarrow> visible (leftHand (runFrames (frames @ later) p))"
    by (simp add: runFrames_append runFrames_left_visible [of later])
  have mr: "visible (rightHand (runFrames frames p))
          \<longrightarrow> visible (rightHand (runFrames (frames @ later) p))"
    by (simp add: runFrames_append runFrames_right_visible [of later])
  show ?thesis
    using init l r ml mr
    by (simp add: updateHands_left_present updateHands_left_absent
        updateHands_right_present updateHands_right_absent)
qed

theorem updateHands_spec_witness:
  "leftHand (updateHands [demoGrip 2] demoPlayer) =
     \<lparr>visible = True, position = \<lparr>vec_x = 2, vec_y = 1, vec_z = 0\<rparr>,
      quaternion = \<lparr>quat_x = 0, quat_y = 0, quat_z = 0, quat_w = 1\<rparr>\<rparr>
   \<and> rightHand (updateHands [demoGrip 2] demoPlayer) = rightHand demoPlayer
   \<and> rightHand (updateHands [demoGrip 2, demoGrip 3] demoPlayer) =
     \<lparr>visible = True, position = \<lparr>vec_x = 3, vec_y = 1, vec_z = 0\<rparr>,
      quaternion = \<lparr>quat_x = 0, quat_y = 0, quat_z = 0, quat_w = 1\<rparr>\<rparr>
   \<and> leftHand (updateHands [] demoPlayer) = leftHand demoPlayer
   \<and> visible (leftHand (runFrames [[], [demoGrip 2], []] demoPlayer))
   \<and> \<not> visible (rightHand (runFrames [[], [demoGrip 2], []] demoPlayer))
   \<and> visible (leftHand (runFrames ([[demoGrip 2]] @ [[]]) demoPlayer))"
  using updateHands_spec [where cs = "[demoGrip 2]" and p = demoPlayer
      and frames = "[[], [demoGrip 2], []]" and later = "[]"
      and lp = "\<lparr>vec_x = 0, vec_y = 0, vec_z = 0\<rparr>"
      and lq = "\<lparr>quat_x = 0, quat_y = 0, quat_z = 0, quat_w = 1\<rparr>"
      and rp = "\<lparr>vec_x = 0, vec_y = 0, vec_z = 0\<rparr>"
      and rq = "\<lparr>quat_x = 0, quat_y = 0, quat_z = 0, quat_w = 1\<rparr>"]
    updateHands_spec [where cs = "[demoGrip 2, demoGrip 3]" and p = demoPlayer
      and frames = "[[demoGrip 2]]" and later = "[[]]"
      and lp = "\<lparr>vec_x = 0, vec_y = 0, vec_z = 0\<rparr>"
      and lq = "\<lparr>quat_x = 0, quat_y = 0, quat_z = 0, quat_w = 1\<rparr>"
      and rp = "\<lparr>vec_x = 0, vec_y = 0, vec_z = 0\<rparr>"
      and rq = "\<lparr>quat_x = 0, quat_y = 0, quat_z = 0, quat_w = 1\<rparr>"]
    updateHands_spec [where cs = "[]" and p = demoPlayer
      and frames = "[]" and later = "[]"
      and lp = "\<lparr>vec_x = 0, vec_y = 0, vec_z = 0\<rparr>"
      and lq = "\<lparr>quat_x = 0, quat_y = 0, quat_z = 0, quat_w = 1\<rparr>"
      and rp = "\<lparr>vec_x = 0, vec_y = 0, vec_z = 0\<rparr>"
      and rq = "\<lparr>quat_x = 0, quat_y = 0, quat_z = 0, quat_w = 1\<rparr>"]
  by (simp add: demoGrip_def demoPlayer_def)

section \<open>Properties of the ambient audio\<close>

text \<open>
  C10. With both ambient sources present and playing, \<open>updateAudioForTimeOfDay(t)\<close>
  sets the birds volume to \<open>0.5 * max(0, sin(2 pi t))\<close> and the night volume to
  \<open>0.5 * (1 - max(0, sin(2 pi t)))\<close>; each lies in \<open>[0, 0.5]\<close> and they add up to \<open>0.5\<close>.
\<close>

theorem ambient_volumes:
  assumes "birds st = Some b" and "night st = Some nt" and "isPlaying b" and "isPlaying nt"
  shows "birds (updateAudioForTimeOfDay t st) = Some (b\<lparr>volume := 0.5 * max 0 (sin (2 * pi * t))\<rparr>)
    \<and> night (updateAudioForTimeOfDay t st) =
         Some (nt\<lparr>volume := 0.5 * (1 - max 0 (sin (2 * pi * t)))\<rparr>)
    \<and> 0 \<le> 0.5 * max 0 (sin (2 * pi * t)) \<and> 0.5 * max 0 (sin (2 * pi * t)) \<le> 0.5
    \<and> 0 \<le> 0.5 * (1 - max 0 (sin (2 * pi * t))) \<and> 0.5 * (1 - max 0 (sin (2 * pi * t))) \<le> 0.5
    \<and> 0.5 * max 0 (sin (2 * pi * t)) + 0.5 * (1 - max 0 (sin (2 * pi * t))) = 0.5"
proof -
  have e: "t * pi * 2 = 2 * pi * t" by simp
  have s: "sin (2 * pi * t) \<le> 1" by simp
  have v: "birds (updateAudioForTimeOfDay t st) = Some (b\<lparr>volume := 0.5 * max 0 (sin (2 * pi * t))\<rparr>)"
    "night (updateAudioForTimeOfDay t st) =
         Some (nt\<lparr>volume := 0.5 * (1 - max 0 (sin (2 * pi * t)))\<rparr>)"
    using assms by (simp_all add: updateAudioForTimeOfDay_def Let_def e)
  have r: "0 \<le> max 0 (sin (2 * pi * t))" "max 0 (sin (2 * pi * t)) \<le> 1"
    using s by simp_all
  have sum: "0.5 * m + 0.5 * (1 - m) = 0.5" for m :: real
  proof -
    have "0.5 * m + 0.5 * (1 - m) = 0.5 * (m + (1 - m))"
      by (simp only: distrib_left)
    then show ?thesis by simp
  qed
  have lo: "0 \<le> 0.5 * max 0 (sin (2 * pi * t))" "0 \<le> 0.5 * (1 - max 0 (sin (2 * pi * t)))"
    using r by simp_all
  have hi: "0.5 * max 0 (sin (2 * pi * t)) \<le> 0.5" "0.5 * (1 - max 0 (sin (2 * pi * t))) \<le> 0.5"
    using r by simp_all
  from v lo hi sum [of "max 0 (sin (2 * pi * t))"] show ?thesis
    by (intro conjI)
qed

theorem ambient_volumes_witness:
  "birds demoAudio = Some \<lparr>isPlaying = True, volume = 0.5\<rparr>
   \<and> night demoAudio = Some \<lparr>isPlaying = True, volume = 0\<rparr>
   \<and> birds (updateAudioForTimeOfDay (1/4) demoAudio) = Some \<lparr>isPlaying = True, volume = 0.5\<rparr>
   \<and> night (updateAudioForTimeOfDay (1/4) demoAudio) = Some \<lparr>isPlaying = True, volume = 0\<rparr>"
  using ambient_volumes [of demoAudio "\<lparr>isPlaying = True, volume = 0.5\<rparr>"
      "\<lparr>isPlaying = True, volume = 0\<rparr>" "1/4"]
  by (simp add: demoAudio_def)

end
